theory Spec2Isabelle
  imports Main
begin

section \<open>Data model\<close>

text \<open>
  The service of \<^verbatim>\<open>main.js\<close> keeps two process-wide maps, \<^verbatim>\<open>ipMap\<close> and
  \<^verbatim>\<open>idempotencyMap\<close>, and a class \<^verbatim>\<open>MockEmailService\<close> holding two mail
  transports. JavaScript exceptions are values of type \<open>js_error\<close>; a call that may throw
  returns \<open>js_error + 'a\<close> with \<open>Inl\<close> for the throw.
\<close>

type_synonym js_error = string

text \<open>
  The body of a delivery request. The handler reads the four fields \<^verbatim>\<open>from\<close>,
  \<^verbatim>\<open>to\<close>, \<^verbatim>\<open>subject\<close> and \<^verbatim>\<open>text\<close> only; whatever else the body carries is
  the record's extension.
\<close>

record emailData =
  mail_from :: string
  mail_to :: string
  mail_subject :: string
  mail_text :: string

text \<open>The status object returned by \<^verbatim>\<open>sendEmail\<close>; \<^verbatim>\<open>provider: null\<close> and an absent
  \<^verbatim>\<open>error\<close> key are \<open>None\<close>.\<close>

record DeliveryOutcome =
  provider :: "string option"
  sent :: bool
  fallbackTried :: bool
  timestamp :: int
  error :: "string option"

text \<open>
  A transport is the nodemailer object of which \<^verbatim>\<open>sendMail\<close> is called: on a message
  it either throws or yields an info object (here its message id). The logging of the
  test-message URL sits in the same \<^verbatim>\<open>try\<close> block, so a throw there is a throw of the
  transport.
\<close>

type_synonym transport = "emailData \<Rightarrow> js_error + string"

text \<open>The constructor sets both providers to \<^verbatim>\<open>null\<close>; \<^verbatim>\<open>initServices\<close> fills them.\<close>

record MockEmailService =
  providerA :: "transport option"
  providerB :: "transport option"

definition newMockEmailService :: MockEmailService where
  "newMockEmailService = \<lparr>providerA = None, providerB = None\<rparr>"

text \<open>Which of the two transports a call of \<^verbatim>\<open>sendEmail\<close> touched.\<close>

datatype transport_id = TransportA | TransportB

section \<open>The failover dispatcher\<close>

text \<open>\<^verbatim>\<open>this.providerX.sendMail(emailData)\<close>: a \<^verbatim>\<open>TypeError\<close> when the provider is still
  \<^verbatim>\<open>null\<close>.\<close>

definition sendMail :: "transport option \<Rightarrow> emailData \<Rightarrow> js_error + string" where
  "sendMail p d = (case p of None \<Rightarrow> Inl ''TypeError'' | Some t \<Rightarrow> t d)"

text \<open>\<^verbatim>\<open>try { body } catch (err) { handler }\<close>.\<close>

definition try_catch :: "js_error + 'a \<Rightarrow> (js_error \<Rightarrow> js_error + 'a) \<Rightarrow> js_error + 'a" where
  "try_catch body handler = (case body of Inr v \<Rightarrow> Inr v | Inl err \<Rightarrow> handler err)"

text \<open>The body of each \<^verbatim>\<open>try\<close> block: await the transport, then return the success
  record.\<close>

definition attempt :: "transport option \<Rightarrow> emailData \<Rightarrow> DeliveryOutcome \<Rightarrow> js_error + DeliveryOutcome" where
  "attempt p d ok = (case sendMail p d of Inl err \<Rightarrow> Inl err | Inr info \<Rightarrow> Inr ok)"

text \<open>
  \<^verbatim>\<open>sendEmail(emailData)\<close>. \<open>simulateAFails\<close> and \<open>simulateBFails\<close> are the results of the
  two draws \<^verbatim>\<open>Math.random() < 0.33\<close>, \<open>now\<close> is the reading of \<^verbatim>\<open>Date.now()\<close> at the
  return. The result is the list of transports whose \<^verbatim>\<open>sendMail\<close> was called, and what
  the method returns (\<open>Inr\<close>) or throws (\<open>Inl\<close>). The four cases are tested in the
  source's order.
\<close>

definition sendEmail ::
  "MockEmailService \<Rightarrow> bool \<Rightarrow> bool \<Rightarrow> int \<Rightarrow> emailData \<Rightarrow> transport_id list \<times> (js_error + DeliveryOutcome)" where
  "sendEmail this simulateAFails simulateBFails now emailData =
    (if simulateAFails \<and> \<not> simulateBFails then
       ([TransportB],
        try_catch
          (attempt (providerB this) emailData
             \<lparr>provider = Some ''B'', sent = True, fallbackTried = True, timestamp = now, error = None\<rparr>)
          (\<lambda>err. Inr \<lparr>provider = None, sent = False, fallbackTried = True, timestamp = now,
                       error = Some ''Fallback failed''\<rparr>))
     else if \<not> simulateAFails \<and> simulateBFails then
       ([TransportA],
        try_catch
          (attempt (providerA this) emailData
             \<lparr>provider = Some ''A'', sent = True, fallbackTried = True, timestamp = now, error = None\<rparr>)
          (\<lambda>err. Inr \<lparr>provider = None, sent = False, fallbackTried = True, timestamp = now,
                       error = Some ''Fallback failed''\<rparr>))
     else if simulateAFails \<and> simulateBFails then
       ([],
        Inr \<lparr>provider = None, sent = False, fallbackTried = False, timestamp = now,
             error = Some ''Both providers failed''\<rparr>)
     else
       ([TransportA],
        try_catch
          (attempt (providerA this) emailData
             \<lparr>provider = Some ''A'', sent = True, fallbackTried = False, timestamp = now, error = None\<rparr>)
          (\<lambda>err. Inr \<lparr>provider = None, sent = False, fallbackTried = False, timestamp = now,
                       error = Some ''Both providers failed''\<rparr>)))"

section \<open>Admission control\<close>

text \<open>
  One entry of \<^verbatim>\<open>ipMap\<close>. The counters are JavaScript numbers that only ever hold small
  naturals; \<^verbatim>\<open>timeStamp\<close> is a reading of \<^verbatim>\<open>Date.now()\<close> in milliseconds, and wall-clock
  time may also step backwards, so it is an \<open>int\<close> and no order of the readings is assumed.
\<close>

record ipEntry =
  retryCount :: nat
  requests :: nat
  timeStamp :: int

definition maxRetries :: nat where
  "maxRetries = 3"

definition maxRequests :: nat where
  "maxRequests = 3"

definition window :: int where
  "window = 1000"

text \<open>
  \<^verbatim>\<open>getBackoffDelay(retryCount, baseDelay = 100)\<close>; an omitted second argument is
  \<open>None\<close>. \<^verbatim>\<open>Math.pow(2, retryCount)\<close> and the product are exact in double precision as
  long as the result is finite (up to a retry count of 1017 for the base 100); the
  middleware calls the function only when the retry count is at most \<open>maxRetries\<close>, so
  the model computes over the naturals.
\<close>

definition getBackoffDelay :: "nat \<Rightarrow> nat option \<Rightarrow> nat" where
  "getBackoffDelay retries baseDelay =
     (case baseDelay of None \<Rightarrow> 100 | Some b \<Rightarrow> b) * 2 ^ retries"

text \<open>
  What the middleware does with the request: it answers with a status and a JSON body, or
  it sets \<^verbatim>\<open>req.delay\<close> and calls \<^verbatim>\<open>next()\<close>; reading a field of a missing entry
  would throw.
\<close>

datatype mw_result = Rejected nat string | Next nat | MwThrew js_error

text \<open>
  Lines 155 to 171: the update of the caller's entry. \<open>now\<close> is the reading of
  \<^verbatim>\<open>Date.now()\<close> that the window test uses (for an unknown caller, the one stored);
  \<open>now'\<close> is the second reading, taken when an expired window is replaced.
\<close>

definition trackRequest :: "('k \<rightharpoonup> ipEntry) \<Rightarrow> 'k \<Rightarrow> int \<Rightarrow> int \<Rightarrow> ('k \<rightharpoonup> ipEntry)" where
  "trackRequest ipMap ip now now' =
     (case ipMap ip of
        None \<Rightarrow> ipMap(ip \<mapsto> \<lparr>retryCount = 1, requests = 1, timeStamp = now\<rparr>)
      | Some val \<Rightarrow>
          if now - timeStamp val < window then
            ipMap(ip \<mapsto> val\<lparr>retryCount := retryCount val + 1, requests := requests val + 1\<rparr>)
          else
            ipMap(ip \<mapsto> \<lparr>retryCount = 1, requests = 1, timeStamp = now'\<rparr>))"

text \<open>Lines 173 to 184: the two checks on the updated entry, in the source's order.\<close>

definition checkLimits :: "ipEntry option \<Rightarrow> mw_result" where
  "checkLimits v =
     (case v of
        None \<Rightarrow> MwThrew ''TypeError''
      | Some val \<Rightarrow>
          if maxRetries < retryCount val then
            Rejected 403 ''YOU HAVE REACHED THE MAXIMUM NUMBER OF RETRIES!!''
          else if requests val > maxRequests then
            Rejected 403 ''YOU HAVE REACHED THE MAXIMUM NUMBER OF REQUESTS!! SLOW DOWN!!''
          else Next (getBackoffDelay (retryCount val) None))"

definition requestTrackingMiddleware ::
  "('k \<rightharpoonup> ipEntry) \<Rightarrow> 'k \<Rightarrow> int \<Rightarrow> int \<Rightarrow> ('k \<rightharpoonup> ipEntry) \<times> mw_result" where
  "requestTrackingMiddleware ipMap ip now now' =
     (let ipMap' = trackRequest ipMap ip now now' in (ipMap', checkLimits (ipMap' ip)))"

text \<open>A sequence of requests through the middleware, each with its caller and its two clock
  readings; the answers come back in the order of the requests, each with its caller.\<close>

fun runMiddleware ::
  "('k \<rightharpoonup> ipEntry) \<Rightarrow> ('k \<times> int \<times> int) list \<Rightarrow> ('k \<rightharpoonup> ipEntry) \<times> ('k \<times> mw_result) list" where
  "runMiddleware ipMap [] = (ipMap, [])"
| "runMiddleware ipMap ((ip, now, now') # rest) =
     (let (ipMap', r) = requestTrackingMiddleware ipMap ip now now';
          (ipMap'', rs) = runMiddleware ipMap' rest
      in (ipMap'', (ip, r) # rs))"

text \<open>The answers given to one caller.\<close>

definition answersTo :: "'k \<Rightarrow> ('k \<times> mw_result) list \<Rightarrow> mw_result list" where
  "answersTo ip rs = map snd (filter (\<lambda>p. fst p = ip) rs)"

section \<open>Deduplication and the handler of POST /sendEmail\<close>

text \<open>The string that is hashed: the template literal
  \<^verbatim>\<open>`${body.from}-${body.to}-${body.subject}-${body.text}`\<close>.\<close>

definition hashInput :: "'a emailData_scheme \<Rightarrow> string" where
  "hashInput body =
     mail_from body @ ''-'' @ mail_to body @ ''-'' @ mail_subject body @ ''-'' @ mail_text body"

text \<open>
  What one request finds outside the handler: what nodemailer gives \<^verbatim>\<open>initServices\<close> (a
  throw, or the two transports), the two failure draws, and the clock.
\<close>

record request_env =
  nodemailer :: "js_error + transport \<times> transport"
  drawA :: bool
  drawB :: bool
  clock :: int

definition initServices :: "js_error + transport \<times> transport \<Rightarrow> MockEmailService \<Rightarrow> js_error + MockEmailService" where
  "initServices made this =
     (case made of
        Inl err \<Rightarrow> Inl err
      | Inr (a, b) \<Rightarrow> Inr (this\<lparr>providerA := Some a, providerB := Some b\<rparr>))"

text \<open>What the handler does, in order: the write to \<^verbatim>\<open>idempotencyMap\<close>, the calls of the
  two methods of the service, and the transports that \<^verbatim>\<open>sendEmail\<close> used.\<close>

datatype event = SetSeen string | InitServices | SendEmail emailData | SendMail transport_id

text \<open>The page sent back; a throw of \<^verbatim>\<open>initServices\<close> leaves the async handler without
  an answer.\<close>

datatype response = DuplicateSkipped | EmailStatus DeliveryOutcome | Unhandled js_error

text \<open>
  The handler. \<open>sha256\<close> is the digest of the crypto module (hex output), a parameter of
  the model. The result is the map afterwards, the events in order, and the answer.
\<close>

definition postSendEmail ::
  "(string \<Rightarrow> string) \<Rightarrow> (string \<rightharpoonup> bool) \<Rightarrow> request_env \<Rightarrow> 'a emailData_scheme
     \<Rightarrow> (string \<rightharpoonup> bool) \<times> event list \<times> response" where
  "postSendEmail sha256 idempotencyMap env body =
     (let hash = sha256 (hashInput body) in
      if idempotencyMap hash \<noteq> None then (idempotencyMap, [], DuplicateSkipped)
      else
        let idempotencyMap' = idempotencyMap(hash \<mapsto> True) in
        case initServices (nodemailer env) newMockEmailService of
          Inl err \<Rightarrow> (idempotencyMap', [SetSeen hash, InitServices], Unhandled err)
        | Inr emailService \<Rightarrow>
            let emailData = \<lparr>mail_from = mail_from body, mail_to = mail_to body,
                             mail_subject = mail_subject body, mail_text = mail_text body\<rparr>;
                (used, result) = sendEmail emailService (drawA env) (drawB env) (clock env) emailData;
                events = [SetSeen hash, InitServices, SendEmail emailData] @ map SendMail used
            in (case result of
                  Inl err \<Rightarrow> (idempotencyMap', events, Unhandled err)
                | Inr status \<Rightarrow> (idempotencyMap', events, EmailStatus status)))"


text \<open>An event of the service object, as opposed to the write to the map.\<close>

definition dispatcherEvent :: "event \<Rightarrow> bool" where
  "dispatcherEvent e = (case e of SetSeen h \<Rightarrow> False | _ \<Rightarrow> True)"

section \<open>Fixtures\<close>

text \<open>
  The requests of the test suite, and two surroundings of a request: one in which the
  mocked transports answer and no failure is drawn, one in which the failure of A is drawn
  and transport B refuses the connection.
\<close>

definition testEmail :: emailData where
  "testEmail = \<lparr>mail_from = ''test@example.com'', mail_to = ''recipient@example.com'',
                 mail_subject = ''Test Subject'', mail_text = ''Test email content''\<rparr>"

definition testEmail2 :: emailData where
  "testEmail2 = \<lparr>mail_from = ''test@example.com'', mail_to = ''recipient@example.com'',
                  mail_subject = ''Test Subject 2'', mail_text = ''Test email content 2''\<rparr>"

text \<open>Two requests that differ in \<^verbatim>\<open>subject\<close> and in \<^verbatim>\<open>text\<close>.\<close>

definition planEmail :: emailData where
  "planEmail = \<lparr>mail_from = ''ann@example.com'', mail_to = ''bob@example.com'',
                 mail_subject = ''Re'', mail_text = ''plan-B''\<rparr>"

definition planEmail2 :: emailData where
  "planEmail2 = \<lparr>mail_from = ''ann@example.com'', mail_to = ''bob@example.com'',
                  mail_subject = ''Re-plan'', mail_text = ''B''\<rparr>"

definition workingEnv :: request_env where
  "workingEnv = \<lparr>nodemailer = Inr (\<lambda>d. Inr ''test-message-id'', \<lambda>d. Inr ''test-message-id''),
                  drawA = False, drawB = False, clock = 1000\<rparr>"

definition failingEnv :: request_env where
  "failingEnv = \<lparr>nodemailer = Inr (\<lambda>d. Inr ''test-message-id'', \<lambda>d. Inl ''ECONNREFUSED''),
                  drawA = True, drawB = False, clock = 2000\<rparr>"

section \<open>The dispatcher's outcome table\<close>

text \<open>
  Claim C1. With both draws true no transport is called and the outcome is
  \<^verbatim>\<open>{provider:null, sent:false, fallbackTried:false, error:"Both providers failed"}\<close>; with
  both draws false transport A is called, giving \<^verbatim>\<open>{provider:"A", sent:true,
  fallbackTried:false}\<close> when it succeeds and \<^verbatim>\<open>{provider:null, sent:false,
  fallbackTried:false, error:"Both providers failed"}\<close> when it throws; with only the draw of A
  true transport B is called, giving \<^verbatim>\<open>{provider:"B", sent:true, fallbackTried:true}\<close>
  when it succeeds and \<^verbatim>\<open>{provider:null, sent:false, fallbackTried:true, error:"Fallback
  failed"}\<close> when it throws.
\<close>

theorem sendEmail_outcome_table:
  "sendEmail this True True now d =
     ([], Inr \<lparr>provider = None, sent = False, fallbackTried = False, timestamp = now,
               error = Some ''Both providers failed''\<rparr>)
   \<and> sendEmail this False False now d =
     ([TransportA],
      Inr (case sendMail (providerA this) d of
             Inr info \<Rightarrow> \<lparr>provider = Some ''A'', sent = True, fallbackTried = False,
                          timestamp = now, error = None\<rparr>
           | Inl err \<Rightarrow> \<lparr>provider = None, sent = False, fallbackTried = False,
                         timestamp = now, error = Some ''Both providers failed''\<rparr>))
   \<and> sendEmail this True False now d =
     ([TransportB],
      Inr (case sendMail (providerB this) d of
             Inr info \<Rightarrow> \<lparr>provider = Some ''B'', sent = True, fallbackTried = True,
                          timestamp = now, error = None\<rparr>
           | Inl err \<Rightarrow> \<lparr>provider = None, sent = False, fallbackTried = True,
                         timestamp = now, error = Some ''Fallback failed''\<rparr>))"
  by (simp add: sendEmail_def try_catch_def attempt_def split: sum.split)

text \<open>
  Claim C4 says that with the draws (false, true) provider A is not used and provider B is
  attempted. The second case of \<^verbatim>\<open>sendEmail\<close> (``B fails, A works'') calls transport A
  and never touches B: the statement fails for a service with two working transports.
\<close>

theorem sendEmail_B_fails_counterexample:
  "\<not> (TransportA \<notin> set (fst (sendEmail
           \<lparr>providerA = Some (\<lambda>d. Inr ''test-message-id''),
            providerB = Some (\<lambda>d. Inr ''test-message-id'')\<rparr>
           False True 1000 testEmail))
      \<and> TransportB \<in> set (fst (sendEmail
           \<lparr>providerA = Some (\<lambda>d. Inr ''test-message-id''),
            providerB = Some (\<lambda>d. Inr ''test-message-id'')\<rparr>
           False True 1000 testEmail)))"
  by (simp add: sendEmail_def)

text \<open>
  Claim C4, amended. With the draws (false, true) transport A is called and transport B is
  not; the outcome is \<^verbatim>\<open>{provider:"A", sent:true, fallbackTried:true}\<close> when A succeeds
  and \<^verbatim>\<open>{provider:null, sent:false, fallbackTried:true, error:"Fallback failed"}\<close> when it
  throws.
\<close>

theorem sendEmail_B_fails_uses_A:
  "sendEmail this False True now d =
     ([TransportA],
      Inr (case sendMail (providerA this) d of
             Inr info \<Rightarrow> \<lparr>provider = Some ''A'', sent = True, fallbackTried = True,
                          timestamp = now, error = None\<rparr>
           | Inl err \<Rightarrow> \<lparr>provider = None, sent = False, fallbackTried = True,
                         timestamp = now, error = Some ''Fallback failed''\<rparr>))"
  by (simp add: sendEmail_def try_catch_def attempt_def split: sum.split)

text \<open>
  Claim C9. Whatever the draws, and whether the transport succeeds, throws or is still
  \<^verbatim>\<open>null\<close>, \<^verbatim>\<open>sendEmail\<close> returns a status record and throws nothing. The record
  has \<^verbatim>\<open>sent: true\<close> exactly when not both failures were drawn and the call of the
  chosen transport (B when the failure of A was drawn, A otherwise) succeeded. In every
  other case, that is when both failures were drawn, or the transport threw, or it was
  \<^verbatim>\<open>null\<close>, the record has \<^verbatim>\<open>sent: false\<close>, the provider \<^verbatim>\<open>null\<close> and an
  \<^verbatim>\<open>error\<close> string: \<^verbatim>\<open>"Fallback failed"\<close> when exactly one failure was drawn,
  \<^verbatim>\<open>"Both providers failed"\<close> otherwise.
\<close>

theorem sendEmail_never_throws:
  "\<exists>out. snd (sendEmail this simulateAFails simulateBFails now d) = Inr out
        \<and> sent out =
            (\<not> (simulateAFails \<and> simulateBFails) \<and>
             (\<exists>info. sendMail (if simulateAFails then providerB this else providerA this) d
                       = Inr info))
        \<and> error out =
            (if sent out then None
             else Some (if simulateAFails \<noteq> simulateBFails then ''Fallback failed''
                        else ''Both providers failed''))
        \<and> sent out = (error out = None) \<and> sent out = (provider out \<noteq> None)
        \<and> timestamp out = now"
proof (cases "sendMail (if simulateAFails then providerB this else providerA this) d")
  case (Inl err)
  then show ?thesis
    by (cases simulateAFails; cases simulateBFails)
       (simp_all add: sendEmail_def try_catch_def attempt_def)
next
  case (Inr info)
  then show ?thesis
    by (cases simulateAFails; cases simulateBFails)
       (simp_all add: sendEmail_def try_catch_def attempt_def)
qed

theorem sendEmail_never_throws_witness:
  "snd (sendEmail newMockEmailService False False 1000 testEmail) =
     Inr \<lparr>provider = None, sent = False, fallbackTried = False, timestamp = 1000,
          error = Some ''Both providers failed''\<rparr>
   \<and> snd (sendEmail \<lparr>providerA = Some (\<lambda>d. Inr ''test-message-id''),
                      providerB = Some (\<lambda>d. Inl ''ECONNREFUSED'')\<rparr> True False 1000 testEmail) =
     Inr \<lparr>provider = None, sent = False, fallbackTried = True, timestamp = 1000,
          error = Some ''Fallback failed''\<rparr>
   \<and> snd (sendEmail \<lparr>providerA = Some (\<lambda>d. Inl ''ECONNREFUSED''),
                      providerB = Some (\<lambda>d. Inr ''test-message-id'')\<rparr> False True 1000 testEmail) =
     Inr \<lparr>provider = None, sent = False, fallbackTried = True, timestamp = 1000,
          error = Some ''Fallback failed''\<rparr>
   \<and> snd (sendEmail \<lparr>providerA = Some (\<lambda>d. Inr ''test-message-id''),
                      providerB = Some (\<lambda>d. Inr ''test-message-id'')\<rparr> True True 1000 testEmail) =
     Inr \<lparr>provider = None, sent = False, fallbackTried = False, timestamp = 1000,
          error = Some ''Both providers failed''\<rparr>"
  using sendEmail_never_throws [of newMockEmailService False False 1000 testEmail]
    sendEmail_never_throws [of "\<lparr>providerA = Some (\<lambda>d. Inr ''test-message-id''),
                      providerB = Some (\<lambda>d. Inl ''ECONNREFUSED'')\<rparr>" True False 1000 testEmail]
    sendEmail_never_throws [of "\<lparr>providerA = Some (\<lambda>d. Inl ''ECONNREFUSED''),
                      providerB = Some (\<lambda>d. Inr ''test-message-id'')\<rparr>" False True 1000 testEmail]
    sendEmail_never_throws [of "\<lparr>providerA = Some (\<lambda>d. Inr ''test-message-id''),
                      providerB = Some (\<lambda>d. Inr ''test-message-id'')\<rparr>" True True 1000 testEmail]
  by (simp add: sendEmail_def try_catch_def attempt_def sendMail_def newMockEmailService_def)

section \<open>Backoff delay\<close>

text \<open>
  Claim C8. With the base delay 100, given or defaulted, the delay is \<open>100 * 2 ^ retries\<close>:
  200, 400 and 800 for the retry counts 1, 2 and 3.
\<close>

theorem getBackoffDelay_value:
  "getBackoffDelay retries (Some 100) = 100 * 2 ^ retries
   \<and> getBackoffDelay retries None = 100 * 2 ^ retries
   \<and> getBackoffDelay 1 None = 200 \<and> getBackoffDelay 2 None = 400 \<and> getBackoffDelay 3 None = 800"
  by (simp add: getBackoffDelay_def)

section \<open>Admission control: the window and its counters\<close>

lemma trackRequest_other: "k \<noteq> ip \<Longrightarrow> trackRequest ipMap ip now now' k = ipMap k"
  by (simp add: trackRequest_def split: option.split)

lemma trackRequest_expired:
  "ipMap ip = Some v \<Longrightarrow> 1000 \<le> now - timeStamp v \<Longrightarrow>
   trackRequest ipMap ip now now' = ipMap(ip \<mapsto> \<lparr>retryCount = 1, requests = 1, timeStamp = now'\<rparr>)"
  by (simp add: trackRequest_def window_def)

lemma checkLimits_equal:
  "checkLimits (Some \<lparr>retryCount = n, requests = n, timeStamp = s\<rparr>) =
     (if n \<le> 3 then Next (100 * 2 ^ n)
      else Rejected 403 ''YOU HAVE REACHED THE MAXIMUM NUMBER OF RETRIES!!'')"
  by (simp add: checkLimits_def maxRetries_def maxRequests_def getBackoffDelay_def)

text \<open>
  Claim C7. When the caller has an entry and the reading of the clock is at least 1000 ms
  past its \<^verbatim>\<open>timeStamp\<close>, the call replaces the entry by fresh counters
  (\<^verbatim>\<open>requests = 1\<close>, \<^verbatim>\<open>retryCount = 1\<close>) stamped with the clock reading taken at the
  reset, and the request is let through with the delay 200. The old entry is arbitrary, so
  this holds whatever answer the caller got before, a denial included.
\<close>

theorem window_reset:
  assumes "ipMap ip = Some v" and "1000 \<le> now - timeStamp v"
  shows "requestTrackingMiddleware ipMap ip now now' =
           (ipMap(ip \<mapsto> \<lparr>retryCount = 1, requests = 1, timeStamp = now'\<rparr>), Next 200)"
  using assms
  by (simp add: requestTrackingMiddleware_def trackRequest_expired checkLimits_equal)

theorem window_reset_witness:
  "[''10.0.0.1'' \<mapsto> \<lparr>retryCount = 4, requests = 4, timeStamp = 5000\<rparr>] ''10.0.0.1''
     = Some \<lparr>retryCount = 4, requests = 4, timeStamp = 5000\<rparr>
   \<and> (1000::int) \<le> 6000 - timeStamp \<lparr>retryCount = 4, requests = 4, timeStamp = 5000\<rparr>
   \<and> checkLimits (Some \<lparr>retryCount = 4, requests = 4, timeStamp = 5000\<rparr>) =
       Rejected 403 ''YOU HAVE REACHED THE MAXIMUM NUMBER OF RETRIES!!''
   \<and> requestTrackingMiddleware
        [''10.0.0.1'' \<mapsto> \<lparr>retryCount = 4, requests = 4, timeStamp = 5000\<rparr>] ''10.0.0.1'' 6000 6001 =
       ([''10.0.0.1'' \<mapsto> \<lparr>retryCount = 1, requests = 1, timeStamp = 6001\<rparr>], Next 200)"
proof -
  have entry: "[''10.0.0.1'' \<mapsto> \<lparr>retryCount = 4, requests = 4, timeStamp = 5000\<rparr>] ''10.0.0.1''
      = Some \<lparr>retryCount = 4, requests = 4, timeStamp = 5000\<rparr>"
    by simp
  have late: "(1000::int) \<le> 6000 - timeStamp \<lparr>retryCount = 4, requests = 4, timeStamp = 5000\<rparr>"
    by simp
  have denied: "checkLimits (Some \<lparr>retryCount = 4, requests = 4, timeStamp = 5000\<rparr>) =
      Rejected 403 ''YOU HAVE REACHED THE MAXIMUM NUMBER OF RETRIES!!''"
    by (simp add: checkLimits_def maxRetries_def)
  show ?thesis
    using entry late denied
      window_reset [where ipMap = "[''10.0.0.1'' \<mapsto> \<lparr>retryCount = 4, requests = 4, timeStamp = 5000\<rparr>]"
        and ip = "''10.0.0.1''" and v = "\<lparr>retryCount = 4, requests = 4, timeStamp = 5000\<rparr>"
        and now = 6000 and now' = 6001, OF entry late]
    by simp
qed

lemma runMiddleware_Cons:
  "runMiddleware ipMap ((ip, now, now') # rest) =
     (fst (runMiddleware (trackRequest ipMap ip now now') rest),
      (ip, checkLimits (trackRequest ipMap ip now now' ip)) #
        snd (runMiddleware (trackRequest ipMap ip now now') rest))"
  by (simp add: requestTrackingMiddleware_def Let_def split: prod.split)

lemma run_in_window:
  assumes "ipMap ip = Some \<lparr>retryCount = n, requests = n, timeStamp = start\<rparr>"
    and "\<forall>c \<in> set cs. fst c = ip \<longrightarrow> fst (snd c) - start < 1000"
  shows "answersTo ip (snd (runMiddleware ipMap cs)) =
           map (\<lambda>N. if N \<le> 3 then Next (100 * 2 ^ N)
                     else Rejected 403 ''YOU HAVE REACHED THE MAXIMUM NUMBER OF RETRIES!!'')
             [Suc n ..< Suc n + length (filter (\<lambda>c. fst c = ip) cs)]
         \<and> fst (runMiddleware ipMap cs) ip =
             Some \<lparr>retryCount = n + length (filter (\<lambda>c. fst c = ip) cs),
                   requests = n + length (filter (\<lambda>c. fst c = ip) cs), timeStamp = start\<rparr>"
  using assms
proof (induction cs arbitrary: ipMap n)
  case Nil
  then show ?case by (simp add: answersTo_def)
next
  case (Cons c cs)
  obtain k t t' where c: "c = (k, t, t')" by (cases c) auto
  show ?case
  proof (cases "k = ip")
    case True
    from Cons.prems c True have inw: "t - start < 1000" by simp
    have step: "trackRequest ipMap ip t t' ip = Some \<lparr>retryCount = Suc n, requests = Suc n, timeStamp = start\<rparr>"
      using Cons.prems(1) inw by (simp add: trackRequest_def window_def)
    have rest: "\<forall>c \<in> set cs. fst c = ip \<longrightarrow> fst (snd c) - start < 1000"
      using Cons.prems(2) by simp
    note IH = Cons.IH [of "trackRequest ipMap ip t t'" "Suc n", OF step rest]
    show ?thesis
      using IH step
      by (simp add: c True runMiddleware_Cons answersTo_def checkLimits_equal upt_conv_Cons
               del: upt_Suc runMiddleware.simps)
  next
    case False
    have step: "trackRequest ipMap k t t' ip = Some \<lparr>retryCount = n, requests = n, timeStamp = start\<rparr>"
      using trackRequest_other [of ip k ipMap t t'] False Cons.prems(1) by simp
    have rest: "\<forall>c \<in> set cs. fst c = ip \<longrightarrow> fst (snd c) - start < 1000"
      using Cons.prems(2) by simp
    note IH = Cons.IH [of "trackRequest ipMap k t t'" n, OF step rest]
    show ?thesis
      using IH False by (simp add: c runMiddleware_Cons answersTo_def del: runMiddleware.simps)
  qed
qed

text \<open>
  Claim C2. Let a call of a caller open a window: the caller is unknown, or its window has
  expired. Whatever calls follow, of this caller or of others, as long as each later call of
  this caller reads a clock less than 1000 ms past the stored window start: the caller's
  \<open>N\<close>-th call in the window is let through when \<open>N \<le> 3\<close>, with the delay of
  \<^verbatim>\<open>retryCount = N\<close>, and is refused with the maximum-retries answer from the fourth
  on; after \<open>N\<close> calls the entry holds \<^verbatim>\<open>retryCount = N\<close>, so the check sees the
  counters as updated by the call itself.
\<close>

theorem calls_within_one_window:
  assumes opens: "ipMap ip = None \<or> (\<exists>v. ipMap ip = Some v \<and> 1000 \<le> t0 - timeStamp v)"
    and start: "start = (if ipMap ip = None then t0 else t0')"
    and inside: "\<forall>c \<in> set cs. fst c = ip \<longrightarrow> fst (snd c) - start < 1000"
  shows "answersTo ip (snd (runMiddleware ipMap ((ip, t0, t0') # cs))) =
           map (\<lambda>N. if N \<le> 3 then Next (100 * 2 ^ N)
                     else Rejected 403 ''YOU HAVE REACHED THE MAXIMUM NUMBER OF RETRIES!!'')
             [1 ..< 2 + length (filter (\<lambda>c. fst c = ip) cs)]
         \<and> fst (runMiddleware ipMap ((ip, t0, t0') # cs)) ip =
             Some \<lparr>retryCount = 1 + length (filter (\<lambda>c. fst c = ip) cs),
                   requests = 1 + length (filter (\<lambda>c. fst c = ip) cs), timeStamp = start\<rparr>"
proof -
  have first: "trackRequest ipMap ip t0 t0' ip =
                 Some \<lparr>retryCount = 1, requests = 1, timeStamp = start\<rparr>"
    using opens start by (auto simp: trackRequest_def window_def)
  note rest = run_in_window [of "trackRequest ipMap ip t0 t0'" ip 1 start cs, OF first inside]
  show ?thesis
    using rest first
    by (simp add: runMiddleware_Cons answersTo_def checkLimits_equal upt_conv_Cons
             del: upt_Suc runMiddleware.simps)
qed

theorem calls_within_one_window_witness:
  "(Map.empty :: string \<rightharpoonup> ipEntry) ''10.0.0.1'' = None
   \<and> answersTo ''10.0.0.1''
       (snd (runMiddleware Map.empty
          [(''10.0.0.1'', 5000, 5000), (''10.0.0.1'', 5250, 5250), (''10.0.0.2'', 5300, 5300),
           (''10.0.0.1'', 5600, 5601), (''10.0.0.1'', 5999, 5999)])) =
       [Next 200, Next 400, Next 800,
        Rejected 403 ''YOU HAVE REACHED THE MAXIMUM NUMBER OF RETRIES!!'']
   \<and> fst (runMiddleware Map.empty
          [(''10.0.0.1'', 5000, 5000), (''10.0.0.1'', 5250, 5250), (''10.0.0.2'', 5300, 5300),
           (''10.0.0.1'', 5600, 5601), (''10.0.0.1'', 5999, 5999)]) ''10.0.0.1'' =
       Some \<lparr>retryCount = 4, requests = 4, timeStamp = 5000\<rparr>"
proof -
  have opens: "(Map.empty :: string \<rightharpoonup> ipEntry) ''10.0.0.1'' = None
      \<or> (\<exists>v. (Map.empty :: string \<rightharpoonup> ipEntry) ''10.0.0.1'' = Some v \<and> 1000 \<le> 5000 - timeStamp v)"
    by simp
  have start: "(5000::int) = (if (Map.empty :: string \<rightharpoonup> ipEntry) ''10.0.0.1'' = None then 5000 else 5000)"
    by simp
  have inside: "\<forall>c \<in> set [(''10.0.0.1'', 5250, 5250), (''10.0.0.2'', 5300, 5300),
         (''10.0.0.1'', 5600, 5601), (''10.0.0.1'', 5999, 5999)].
      fst c = ''10.0.0.1'' \<longrightarrow> fst (snd c) - 5000 < (1000::int)"
    by simp
  show ?thesis
    using calls_within_one_window [where ipMap = "Map.empty :: string \<rightharpoonup> ipEntry"
        and ip = "''10.0.0.1''" and ?t0.0 = 5000 and t0' = 5000 and start = 5000
        and cs = "[(''10.0.0.1'', 5250, 5250), (''10.0.0.2'', 5300, 5300),
         (''10.0.0.1'', 5600, 5601), (''10.0.0.1'', 5999, 5999)]", OF opens start inside]
    by (simp add: upt_conv_Cons del: runMiddleware.simps)
qed

lemma trackRequest_counters:
  assumes "\<forall>k v. ipMap k = Some v \<longrightarrow> retryCount v = requests v"
  shows "\<forall>k v. trackRequest ipMap ip now now' k = Some v \<longrightarrow> retryCount v = requests v"
  using assms by (auto simp: trackRequest_def split: option.splits if_splits)

lemma trackRequest_defined: "\<exists>v. trackRequest ipMap ip now now' ip = Some v"
  by (simp add: trackRequest_def split: option.split)

lemma checkLimits_counters:
  "retryCount v = requests v \<Longrightarrow>
   (\<exists>d. checkLimits (Some v) = Next d) \<or>
   checkLimits (Some v) = Rejected 403 ''YOU HAVE REACHED THE MAXIMUM NUMBER OF RETRIES!!''"
  by (simp add: checkLimits_def maxRetries_def maxRequests_def)

lemma run_counters:
  assumes "\<forall>k v. ipMap k = Some v \<longrightarrow> retryCount v = requests v"
  shows "(\<forall>k v. fst (runMiddleware ipMap cs) k = Some v \<longrightarrow> retryCount v = requests v)
       \<and> (\<forall>p \<in> set (snd (runMiddleware ipMap cs)).
            (\<exists>d. snd p = Next d) \<or>
            snd p = Rejected 403 ''YOU HAVE REACHED THE MAXIMUM NUMBER OF RETRIES!!'')"
  using assms
proof (induction cs arbitrary: ipMap)
  case Nil
  then show ?case by simp
next
  case (Cons c cs)
  obtain ip t t' where c: "c = (ip, t, t')" by (cases c) auto
  have inv': "\<forall>k v. trackRequest ipMap ip t t' k = Some v \<longrightarrow> retryCount v = requests v"
    using trackRequest_counters [OF Cons.prems] .
  obtain v where v: "trackRequest ipMap ip t t' ip = Some v"
    using trackRequest_defined [of ipMap ip t t'] by (elim exE)
  have "retryCount v = requests v" using inv' v by blast
  then have head: "(\<exists>d. checkLimits (Some v) = Next d) \<or>
      checkLimits (Some v) = Rejected 403 ''YOU HAVE REACHED THE MAXIMUM NUMBER OF RETRIES!!''"
    by (rule checkLimits_counters)
  note IH = Cons.IH [of "trackRequest ipMap ip t t'", OF inv']
  show ?case
    using IH head v by (simp add: c runMiddleware_Cons del: runMiddleware.simps)
qed

text \<open>
  Claim C10. Starting from the empty \<^verbatim>\<open>ipMap\<close>, after any sequence of calls every entry
  has \<^verbatim>\<open>retryCount = requests\<close>, and every answer is either a pass or the
  maximum-retries refusal: the maximum-requests refusal (and the throw) never occurs.
\<close>

theorem counters_always_equal:
  "(\<forall>k v. fst (runMiddleware Map.empty cs) k = Some v \<longrightarrow> retryCount v = requests v)
   \<and> (\<forall>p \<in> set (snd (runMiddleware Map.empty cs)).
        (\<exists>d. snd p = Next d) \<or>
        snd p = Rejected 403 ''YOU HAVE REACHED THE MAXIMUM NUMBER OF RETRIES!!'')"
  by (rule run_counters) simp

theorem counters_always_equal_witness:
  "fst (runMiddleware Map.empty
          [(''10.0.0.1'', 5000, 5000), (''10.0.0.1'', 5250, 5250), (''10.0.0.2'', 5300, 5300),
           (''10.0.0.1'', 5600, 5601), (''10.0.0.1'', 5999, 5999), (''10.0.0.1'', 5999, 5999)])
     ''10.0.0.1'' = Some \<lparr>retryCount = 5, requests = 5, timeStamp = 5000\<rparr>
   \<and> map snd (snd (runMiddleware Map.empty
          [(''10.0.0.1'', 5000, 5000), (''10.0.0.1'', 5250, 5250), (''10.0.0.2'', 5300, 5300),
           (''10.0.0.1'', 5600, 5601), (''10.0.0.1'', 5999, 5999), (''10.0.0.1'', 5999, 5999)])) =
       [Next 200, Next 400, Next 200, Next 800,
        Rejected 403 ''YOU HAVE REACHED THE MAXIMUM NUMBER OF RETRIES!!'',
        Rejected 403 ''YOU HAVE REACHED THE MAXIMUM NUMBER OF RETRIES!!'']"
  using counters_always_equal [of
      "[(''10.0.0.1'', 5000, 5000), (''10.0.0.1'', 5250, 5250), (''10.0.0.2'', 5300, 5300),
        (''10.0.0.1'', 5600, 5601), (''10.0.0.1'', 5999, 5999), (''10.0.0.1'', 5999, 5999)]"]
  by (simp add: requestTrackingMiddleware_def trackRequest_def checkLimits_def window_def
        maxRetries_def maxRequests_def getBackoffDelay_def)

section \<open>Deduplication\<close>

text \<open>
  The theorems of this section follow the handler through one lifetime of
  \<^verbatim>\<open>idempotencyMap\<close>: the timer that clears the map every six seconds is outside the
  handler and is not part of a request sequence.
\<close>

lemma post_duplicate:
  "idempotencyMap (digest (hashInput body)) \<noteq> None \<Longrightarrow>
   postSendEmail digest idempotencyMap env body = (idempotencyMap, [], DuplicateSkipped)"
  by (simp add: postSendEmail_def)

lemma post_first_sight:
  assumes "idempotencyMap (digest (hashInput body)) = None"
  shows "postSendEmail digest idempotencyMap env body =
     (idempotencyMap(digest (hashInput body) \<mapsto> True),
      SetSeen (digest (hashInput body)) # InitServices #
        (case nodemailer env of
           Inl err \<Rightarrow> []
         | Inr made \<Rightarrow>
             SendEmail \<lparr>mail_from = mail_from body, mail_to = mail_to body,
                        mail_subject = mail_subject body, mail_text = mail_text body\<rparr> #
             map SendMail (fst (sendEmail \<lparr>providerA = Some (fst made), providerB = Some (snd made)\<rparr>
               (drawA env) (drawB env) (clock env)
               \<lparr>mail_from = mail_from body, mail_to = mail_to body,
                 mail_subject = mail_subject body, mail_text = mail_text body\<rparr>))),
      (case nodemailer env of
         Inl err \<Rightarrow> Unhandled err
       | Inr made \<Rightarrow>
           (case snd (sendEmail \<lparr>providerA = Some (fst made), providerB = Some (snd made)\<rparr>
               (drawA env) (drawB env) (clock env)
               \<lparr>mail_from = mail_from body, mail_to = mail_to body,
                 mail_subject = mail_subject body, mail_text = mail_text body\<rparr>) of
              Inl err \<Rightarrow> Unhandled err
            | Inr status \<Rightarrow> EmailStatus status)))"
  using assms
  by (simp add: postSendEmail_def Let_def initServices_def newMockEmailService_def
           split: sum.split prod.split)


lemma post_marks:
  "fst (postSendEmail digest idempotencyMap env body) (digest (hashInput body)) \<noteq> None"
proof (cases "idempotencyMap (digest (hashInput body)) = None")
  case True
  show ?thesis
    by (simp add: post_first_sight [of idempotencyMap digest body env, OF True])
next
  case False
  show ?thesis
    using False by (simp add: post_duplicate [of idempotencyMap digest body env, OF False])
qed



lemma post_first_sight_events:
  assumes "idempotencyMap (digest (hashInput body)) = None"
  shows "\<exists>rest. fst (snd (postSendEmail digest idempotencyMap env body)) =
                  SetSeen (digest (hashInput body)) # InitServices # rest
              \<and> list_all dispatcherEvent rest"
  by (cases "nodemailer env")
     (auto simp: post_first_sight [of idempotencyMap digest body env, OF assms]
        dispatcherEvent_def list_all_iff)

lemma post_first_sight_response:
  assumes "idempotencyMap (digest (hashInput body)) = None"
  shows "snd (snd (postSendEmail digest idempotencyMap env body)) \<noteq> DuplicateSkipped"
  by (simp add: post_first_sight [of idempotencyMap digest body env, OF assms] split: sum.split)



text \<open>
  Claim C6. For a request whose fingerprint is not yet in the map, the first thing the
  handler does is the write to the map; the calls of the service object come after it, and
  no write follows them. Afterwards the fingerprint is in the map with the value true,
  whatever the answer: also when \<^verbatim>\<open>initServices\<close> throws or the status has
  \<^verbatim>\<open>sent: false\<close>.
\<close>

theorem seen_before_dispatch:
  assumes "idempotencyMap (digest (hashInput body)) = None"
  shows "(\<exists>rest. fst (snd (postSendEmail digest idempotencyMap env body)) =
                  SetSeen (digest (hashInput body)) # InitServices # rest
              \<and> list_all dispatcherEvent rest)
       \<and> fst (postSendEmail digest idempotencyMap env body) (digest (hashInput body)) = Some True"
proof -
  have "fst (postSendEmail digest idempotencyMap env body) (digest (hashInput body)) = Some True"
    by (simp add: post_first_sight [of idempotencyMap digest body env, OF assms])
  then show ?thesis
    using post_first_sight_events [of idempotencyMap digest body env, OF assms] by blast
qed

theorem seen_before_dispatch_witness:
  "(Map.empty :: string \<rightharpoonup> bool) (hashInput testEmail) = None
   \<and> postSendEmail (\<lambda>s. s) Map.empty failingEnv testEmail =
       ([hashInput testEmail \<mapsto> True],
        [SetSeen (hashInput testEmail), InitServices, SendEmail testEmail, SendMail TransportB],
        EmailStatus \<lparr>provider = None, sent = False, fallbackTried = True,
                     timestamp = 2000, error = Some ''Fallback failed''\<rparr>)"
proof -
  have first_sight: "(Map.empty :: string \<rightharpoonup> bool) (hashInput testEmail) = None"
    by simp
  show ?thesis
    using seen_before_dispatch [where idempotencyMap = Map.empty and digest = "\<lambda>s. s"
        and body = testEmail and env = failingEnv, OF first_sight]
    by (simp add: postSendEmail_def hashInput_def initServices_def newMockEmailService_def
        sendEmail_def try_catch_def attempt_def sendMail_def Let_def
        testEmail_def testEmail2_def workingEnv_def failingEnv_def)
qed

lemma dash_split:
  assumes "CHR ''-'' \<notin> set a" and "CHR ''-'' \<notin> set b"
    and "a @ CHR ''-'' # x = b @ CHR ''-'' # y"
  shows "a = b \<and> x = y"
  using assms
proof (induction a arbitrary: b)
  case Nil
  then show ?case by (cases b) auto
next
  case (Cons c a)
  then show ?case by (cases b) auto
qed

lemma hashInput_inj:
  assumes "CHR ''-'' \<notin> set (mail_from reqA @ mail_to reqA @ mail_subject reqA)"
    and "CHR ''-'' \<notin> set (mail_from reqB @ mail_to reqB @ mail_subject reqB)"
    and eq: "hashInput reqA = hashInput reqB"
  shows "mail_from reqA = mail_from reqB \<and> mail_to reqA = mail_to reqB
       \<and> mail_subject reqA = mail_subject reqB \<and> mail_text reqA = mail_text reqB"
proof -
  have f: "mail_from reqA = mail_from reqB
         \<and> mail_to reqA @ CHR ''-'' # mail_subject reqA @ CHR ''-'' # mail_text reqA
           = mail_to reqB @ CHR ''-'' # mail_subject reqB @ CHR ''-'' # mail_text reqB"
    using assms by (intro dash_split) (simp_all add: hashInput_def)
  then have t: "mail_to reqA = mail_to reqB
         \<and> mail_subject reqA @ CHR ''-'' # mail_text reqA = mail_subject reqB @ CHR ''-'' # mail_text reqB"
    using assms(1,2) by (intro dash_split) simp_all
  then have "mail_subject reqA = mail_subject reqB \<and> mail_text reqA = mail_text reqB"
    using assms(1,2) by (intro dash_split) simp_all
  with f t show ?thesis by simp
qed

text \<open>
  Claim C5: two requests that differ in a field get distinct fingerprints, and both are
  handled as non-duplicates. The hashed string joins the fields with \<^verbatim>\<open>-\<close>, so a
  \<^verbatim>\<open>-\<close> inside a field can stand in for a separator. The two requests
  \<open>planEmail\<close> and \<open>planEmail2\<close> differ in \<^verbatim>\<open>subject\<close> and \<^verbatim>\<open>text\<close> and are hashed
  from the same string; under any digest, and whatever the surroundings, the second one is
  answered as a duplicate of the first and never reaches the service object.
\<close>

theorem dash_in_field_collision:
  "mail_subject planEmail \<noteq> mail_subject planEmail2
   \<and> mail_text planEmail \<noteq> mail_text planEmail2
   \<and> hashInput planEmail = ''ann@example.com-bob@example.com-Re-plan-B''
   \<and> hashInput planEmail2 = ''ann@example.com-bob@example.com-Re-plan-B''
   \<and> snd (snd (postSendEmail digest Map.empty env planEmail)) \<noteq> DuplicateSkipped
   \<and> snd (postSendEmail digest (fst (postSendEmail digest Map.empty env planEmail)) env' planEmail2)
       = ([], DuplicateSkipped)"
proof -
  have keys: "hashInput planEmail = ''ann@example.com-bob@example.com-Re-plan-B''"
    "hashInput planEmail2 = ''ann@example.com-bob@example.com-Re-plan-B''"
    by (simp_all add: hashInput_def planEmail_def planEmail2_def)
  have fields: "mail_subject planEmail \<noteq> mail_subject planEmail2"
    "mail_text planEmail \<noteq> mail_text planEmail2"
    by (simp_all add: planEmail_def planEmail2_def)
  have first: "snd (snd (postSendEmail digest Map.empty env planEmail)) \<noteq> DuplicateSkipped"
    by (rule post_first_sight_response) simp
  have "fst (postSendEmail digest Map.empty env planEmail) (digest (hashInput planEmail)) \<noteq> None"
    by (rule post_marks)
  then have "fst (postSendEmail digest Map.empty env planEmail) (digest (hashInput planEmail2)) \<noteq> None"
    by (simp add: keys)
  then have "postSendEmail digest (fst (postSendEmail digest Map.empty env planEmail)) env' planEmail2
      = (fst (postSendEmail digest Map.empty env planEmail), [], DuplicateSkipped)"
    by (rule post_duplicate)
  then show ?thesis
    using keys fields first by simp
qed

text \<open>
  The join is unambiguous when \<^verbatim>\<open>from\<close>, \<^verbatim>\<open>to\<close> and \<^verbatim>\<open>subject\<close> contain no
  \<^verbatim>\<open>-\<close>: two such requests that differ in a field are hashed from distinct strings.
  Unless the digest collides on these two strings the fingerprints are distinct, and when
  neither is in the map yet, both requests, handled one after the other, are answered as
  non-duplicates and reach the service object.
\<close>

lemma dash_free_requests_distinct:
  assumes nodashA: "CHR ''-'' \<notin> set (mail_from reqA @ mail_to reqA @ mail_subject reqA)"
    and nodashB: "CHR ''-'' \<notin> set (mail_from reqB @ mail_to reqB @ mail_subject reqB)"
    and differ: "mail_from reqA \<noteq> mail_from reqB \<or> mail_to reqA \<noteq> mail_to reqB
                 \<or> mail_subject reqA \<noteq> mail_subject reqB \<or> mail_text reqA \<noteq> mail_text reqB"
    and no_collision: "digest (hashInput reqA) = digest (hashInput reqB) \<longrightarrow> hashInput reqA = hashInput reqB"
    and fresh: "idempotencyMap (digest (hashInput reqA)) = None
                \<and> idempotencyMap (digest (hashInput reqB)) = None"
    and seenA: "seenA = fst (postSendEmail digest idempotencyMap envA reqA)"
  shows "hashInput reqA \<noteq> hashInput reqB
       \<and> digest (hashInput reqA) \<noteq> digest (hashInput reqB)
       \<and> snd (snd (postSendEmail digest idempotencyMap envA reqA)) \<noteq> DuplicateSkipped
       \<and> snd (snd (postSendEmail digest seenA envB reqB)) \<noteq> DuplicateSkipped
       \<and> InitServices \<in> set (fst (snd (postSendEmail digest idempotencyMap envA reqA)))
       \<and> InitServices \<in> set (fst (snd (postSendEmail digest seenA envB reqB)))"
proof -
  have keys: "hashInput reqA \<noteq> hashInput reqB"
    using hashInput_inj [OF nodashA nodashB] differ by blast
  then have fps: "digest (hashInput reqA) \<noteq> digest (hashInput reqB)"
    using no_collision by blast
  have freshA: "idempotencyMap (digest (hashInput reqA)) = None" using fresh by simp
  have "seenA = idempotencyMap(digest (hashInput reqA) \<mapsto> True)"
    unfolding seenA by (simp add: post_first_sight [of idempotencyMap digest reqA envA, OF freshA])
  then have freshB: "seenA (digest (hashInput reqB)) = None"
    using fresh fps by simp
  have e1: "InitServices \<in> set (fst (snd (postSendEmail digest idempotencyMap envA reqA)))"
    using post_first_sight_events [of idempotencyMap digest reqA envA, OF freshA] by auto
  have e2: "InitServices \<in> set (fst (snd (postSendEmail digest seenA envB reqB)))"
    using post_first_sight_events [of seenA digest reqB envB, OF freshB] by auto
  show ?thesis
    using keys fps e1 e2 post_first_sight_response [of idempotencyMap digest reqA envA, OF freshA]
      post_first_sight_response [of seenA digest reqB envB, OF freshB]
    by blast
qed

lemma dash_free_requests_distinct_example:
  "hashInput testEmail \<noteq> hashInput testEmail2
   \<and> snd (snd (postSendEmail (\<lambda>s. s) Map.empty workingEnv testEmail)) =
       EmailStatus \<lparr>provider = Some ''A'', sent = True, fallbackTried = False,
                    timestamp = 1000, error = None\<rparr>
   \<and> snd (snd (postSendEmail (\<lambda>s. s)
         (fst (postSendEmail (\<lambda>s. s) Map.empty workingEnv testEmail)) failingEnv testEmail2)) =
       EmailStatus \<lparr>provider = None, sent = False, fallbackTried = True,
                    timestamp = 2000, error = Some ''Fallback failed''\<rparr>"
proof -
  have nodashA: "CHR ''-'' \<notin> set (mail_from testEmail @ mail_to testEmail @ mail_subject testEmail)"
    by (simp add: testEmail_def)
  have nodashB: "CHR ''-'' \<notin> set (mail_from testEmail2 @ mail_to testEmail2 @ mail_subject testEmail2)"
    by (simp add: testEmail2_def)
  have differ: "mail_from testEmail \<noteq> mail_from testEmail2 \<or> mail_to testEmail \<noteq> mail_to testEmail2
      \<or> mail_subject testEmail \<noteq> mail_subject testEmail2 \<or> mail_text testEmail \<noteq> mail_text testEmail2"
    by (simp add: testEmail_def testEmail2_def)
  have no_collision: "hashInput testEmail = hashInput testEmail2 \<longrightarrow> hashInput testEmail = hashInput testEmail2"
    by simp
  have fresh: "(Map.empty :: string \<rightharpoonup> bool) (hashInput testEmail) = None
      \<and> (Map.empty :: string \<rightharpoonup> bool) (hashInput testEmail2) = None"
    by simp
  show ?thesis
    using dash_free_requests_distinct [where idempotencyMap = Map.empty and digest = "\<lambda>s. s"
        and reqA = testEmail and reqB = testEmail2 and envA = workingEnv and envB = failingEnv,
        OF nodashA nodashB differ no_collision fresh refl]
    by (simp add: postSendEmail_def hashInput_def initServices_def newMockEmailService_def
        sendEmail_def try_catch_def attempt_def sendMail_def Let_def
        testEmail_def testEmail2_def workingEnv_def failingEnv_def)
qed

end
